theory Spec2Isabelle
  imports Main "HOL-Library.Word"
begin

section \<open>The SSH client object and its boundary\<close>

text \<open>
  The source is one JavaScript object, \<open>SSHClient\<close>, that drives a native module
  (\<open>RNSSHClient\<close>) and subscribes to native events through an event emitter. The
  object's fields are embedded as a record. The two things the object talks to are
  made observable in the same record: the calls made on the native module, in order,
  and the subscriptions that are live on the emitters.

  Every native operation completes later through a callback, so a method is embedded
  in parts: the part that runs when the method is called (named as the method), the
  body of a \<open>.then(...)\<close> continuation (suffix \<open>_then\<close>), and the completion
  callback handed to the native module (suffix \<open>_cb\<close>). The optional user callback
  of a method is opaque code that receives the same error and response just before the
  promise is settled; it is not part of the embedding.
\<close>

datatype platform = Ios | Android | OtherOS

datatype PtyType = VANILLA | VT100 | VT102 | VT220 | ANSI | XTERM

definition NATIVE_EVENT_SHELL :: string where
  "NATIVE_EVENT_SHELL = ''Shell''"

definition NATIVE_EVENT_DOWNLOAD_PROGRESS :: string where
  "NATIVE_EVENT_DOWNLOAD_PROGRESS = ''DownloadProgress''"

definition NATIVE_EVENT_UPLOAD_PROGRESS :: string where
  "NATIVE_EVENT_UPLOAD_PROGRESS = ''UploadProgress''"

text \<open>
  A truthy error value passed by the native module. The callbacks only test an error
  for truthiness, so \<open>None\<close> stands for every falsy value (\<open>null\<close>, \<open>undefined\<close>).
\<close>

datatype cb_error = CBError string

datatype js_exception = SyntaxError | TypeError

text \<open>
  What becomes of the promise a method returns. \<open>Thrown\<close> is an exception that leaves
  a completion callback: neither \<open>resolve\<close> nor \<open>reject\<close> has been reached, so the
  promise stays unsettled.
\<close>

datatype 'a promise = Resolved 'a | Rejected cb_error | Pending | Thrown js_exception

text \<open>A JavaScript string as its UTF-16 code units; used where code units are inspected.\<close>

type_synonym js_string = "16 word list"

datatype emitter = RNSSHClientEmitter | DeviceEventEmitter

record subscription =
  sub_id :: nat
  sub_emitter :: emitter
  sub_event :: string

record counters_rec =
  download :: int
  upload :: int

record activeStream_rec =
  sftp :: bool
  shell :: bool

text \<open>
  A password, or a key pair with its private key, optional public key and optional
  passphrase.
\<close>

datatype passwordOrKey = Password string | KeyPair string "string option" "string option"

datatype native_call =
    ConnectToHostByPassword string nat string string string
  | ConnectToHostByKey string nat string passwordOrKey string
  | ConnectToHost string nat string passwordOrKey string
  | StartShell string PtyType
  | CloseShell string
  | ConnectSFTP string
  | SftpLs string string
  | SftpUpload string string string
  | SftpUploadWithCustomName string string string string
  | SftpUploadBase64 string string string string
  | SftpCancelUpload string
  | SftpDownload string string string
  | SftpCancelDownload string
  | DisconnectSFTP string
  | Disconnect string

text \<open>
  What a property read on a JavaScript object yields, as far as \<open>handleEvent\<close> tells
  values apart: a falsy value (\<open>undefined\<close> for a missing property), a function, or
  a truthy value that cannot be called. A function is a user handler, known by its
  identity, or a built-in that the object inherits, known by its property name.
\<close>

datatype callee = UserHandler nat | Builtin string

datatype js_property = Falsy | Callable callee | TruthyNotCallable

text \<open>
  A user handler is a function object. Besides its identity, the embedding keeps what
  matters when the function is made the prototype of another object: what a property
  read finds on it and along its prototype chain (\<open>fn_props\<close>), and the names that
  cannot be assigned through it because the inherited property is read-only
  (\<open>fn_readonly\<close>).
\<close>

record handler =
  fn_id :: nat
  fn_props :: "string \<Rightarrow> js_property"
  fn_readonly :: "string \<Rightarrow> bool"



text \<open>
  The fields of the object (\<open>_key\<close>, \<open>_listeners\<close>, \<open>_counters\<close>,
  \<open>_activeStream\<close>, \<open>_handlers\<close>, \<open>host\<close>, \<open>port\<close>, \<open>username\<close>), followed by
  the boundary: \<open>native_calls\<close> lists the calls made on \<open>RNSSHClient\<close>, oldest
  first; \<open>emitter_subs\<close> lists the live emitter subscriptions whose listener is this
  object's \<open>handleEvent\<close>; \<open>next_sub\<close> numbers the next subscription object.

  \<open>_handlers\<close> is a plain object, so it takes three fields: \<open>handlers\<close> holds its
  own properties, \<open>proto_props\<close> what a read finds along its prototype chain, and
  \<open>proto_readonly\<close> the names that cannot be assigned because of a read-only
  inherited property. \<open>registerNativeListener\<close> and \<open>unregisterNativeListener\<close> are
  private and are called with the three event-name constants only; \<open>listeners\<close>
  holds the entries of \<open>_listeners\<close> under the names used as keys.
\<close>

record state =
  key :: string
  listeners :: "string \<rightharpoonup> subscription"
  counters :: counters_rec
  activeStream :: activeStream_rec
  handlers :: "string \<rightharpoonup> handler"
  proto_props :: "string \<Rightarrow> js_property"
  proto_readonly :: "string \<Rightarrow> bool"
  host :: string
  port :: nat
  username :: string
  native_calls :: "native_call list"
  emitter_subs :: "subscription list"
  next_sub :: nat

text \<open>
  \<open>Object.prototype\<close>, the prototype of an object written \<open>{}\<close>. It belongs to the
  language: seven functions, the four legacy accessor helpers, and the accessor
  \<open>__proto__\<close>, whose getter returns the prototype, an object that cannot be called.
  All of its data properties are writable.
\<close>

definition Object_prototype_functions :: "string list" where
  "Object_prototype_functions =
     [''constructor'', ''hasOwnProperty'', ''isPrototypeOf'', ''propertyIsEnumerable'',
      ''toLocaleString'', ''toString'', ''valueOf'',
      ''__defineGetter__'', ''__defineSetter__'', ''__lookupGetter__'', ''__lookupSetter__'']"

definition Object_prototype :: "string \<Rightarrow> js_property" where
  "Object_prototype name =
     (if name = ''__proto__'' then TruthyNotCallable
      else if name \<in> set Object_prototype_functions then Callable (Builtin name)
      else Falsy)"

definition call_native :: "native_call \<Rightarrow> state \<Rightarrow> state" where
  "call_native c s = s\<lparr>native_calls := native_calls s @ [c]\<rparr>"

subsection \<open>The event emitter\<close>

text \<open>
  The emitter belongs to React Native. \<open>addListener\<close> creates a new subscription
  object for the event name and returns it; \<open>remove\<close> on a subscription object ends
  that subscription and no other.
\<close>

definition addListener :: "emitter \<Rightarrow> string \<Rightarrow> state \<Rightarrow> subscription \<times> state" where
  "addListener em eventName s =
     (let sb = \<lparr>sub_id = next_sub s, sub_emitter = em, sub_event = eventName\<rparr>
      in (sb, s\<lparr>emitter_subs := emitter_subs s @ [sb], next_sub := Suc (next_sub s)\<rparr>))"

definition remove_sub :: "subscription \<Rightarrow> state \<Rightarrow> state" where
  "remove_sub sb s = s\<lparr>emitter_subs := filter (\<lambda>x. sub_id x \<noteq> sub_id sb) (emitter_subs s)\<rparr>"

text \<open>The live subscriptions of this object for one event name.\<close>

definition active_subs :: "state \<Rightarrow> string \<Rightarrow> subscription list" where
  "active_subs s eventName = filter (\<lambda>x. sub_event x = eventName) (emitter_subs s)"

subsection \<open>Construction and connection\<close>

definition connect :: "platform \<Rightarrow> state \<Rightarrow> passwordOrKey \<Rightarrow> state" where
  "connect os s pk =
     (if os = Android then
        (case pk of
           Password pw \<Rightarrow>
             call_native (ConnectToHostByPassword (host s) (port s) (username s) pw (key s)) s
         | KeyPair _ _ _ \<Rightarrow>
             call_native (ConnectToHostByKey (host s) (port s) (username s) pk (key s)) s)
      else call_native (ConnectToHost (host s) (port s) (username s) pk (key s)) s)"

text \<open>
  The constructor. The key comes from \<open>getRandomClientKey\<close>, a random choice, so it is
  an argument here. The boundary starts empty.
\<close>

definition new_SSHClient ::
  "platform \<Rightarrow> string \<Rightarrow> string \<Rightarrow> nat \<Rightarrow> string \<Rightarrow> passwordOrKey \<Rightarrow> state" where
  "new_SSHClient os k h p u pk =
     connect os
       \<lparr>key = k, listeners = Map.empty,
        counters = \<lparr>download = 0, upload = 0\<rparr>,
        activeStream = \<lparr>sftp = False, shell = False\<rparr>,
        handlers = Map.empty, proto_props = Object_prototype, proto_readonly = (\<lambda>name. False),
        host = h, port = p, username = u,
        native_calls = [], emitter_subs = [], next_sub = 0\<rparr> pk"

subsection \<open>Events and listeners\<close>




definition registerNativeListener :: "platform \<Rightarrow> state \<Rightarrow> string \<Rightarrow> state" where
  "registerNativeListener os s eventName =
     (let listenerInterface = (if os = Ios then RNSSHClientEmitter else DeviceEventEmitter);
          (sb, s') = addListener listenerInterface eventName s
      in s'\<lparr>listeners := (listeners s')(eventName \<mapsto> sb)\<rparr>)"

definition unregisterNativeListener :: "state \<Rightarrow> string \<Rightarrow> state" where
  "unregisterNativeListener s eventName =
     (case listeners s eventName of
        Some listener \<Rightarrow>
          (let s' = remove_sub listener s
           in s'\<lparr>listeners := (listeners s')(eventName := None)\<rparr>)
      | None \<Rightarrow> s)"

subsection \<open>The shell\<close>

definition startShell :: "platform \<Rightarrow> state \<Rightarrow> PtyType \<Rightarrow> state \<times> string promise" where
  "startShell os s ptyType =
     (if shell (activeStream s) then (s, Resolved '''')
      else
        (let s1 = registerNativeListener os s NATIVE_EVENT_SHELL;
             s2 = call_native (StartShell (key s1) ptyType) s1
         in (s2, Pending)))"

definition startShell_cb :: "state \<Rightarrow> cb_error option \<Rightarrow> string \<Rightarrow> state \<times> string promise" where
  "startShell_cb s error response =
     (case error of
        Some e \<Rightarrow> (s, Rejected e)
      | None \<Rightarrow> (s\<lparr>activeStream := (activeStream s)\<lparr>shell := True\<rparr>\<rparr>, Resolved response))"

definition closeShell :: "state \<Rightarrow> state" where
  "closeShell s =
     (let s1 = unregisterNativeListener s NATIVE_EVENT_SHELL;
          s2 = call_native (CloseShell (key s1)) s1
      in s2\<lparr>activeStream := (activeStream s2)\<lparr>shell := False\<rparr>\<rparr>)"

subsection \<open>The SFTP channel\<close>

definition connectSFTP :: "state \<Rightarrow> state \<times> unit promise" where
  "connectSFTP s =
     (if sftp (activeStream s) then (s, Resolved ())
      else (call_native (ConnectSFTP (key s)) s, Pending))"

definition connectSFTP_cb :: "platform \<Rightarrow> state \<Rightarrow> cb_error option \<Rightarrow> state \<times> unit promise" where
  "connectSFTP_cb os s error =
     (let s1 = s\<lparr>activeStream := (activeStream s)\<lparr>sftp := True\<rparr>\<rparr>;
          s2 = registerNativeListener os s1 NATIVE_EVENT_DOWNLOAD_PROGRESS;
          s3 = registerNativeListener os s2 NATIVE_EVENT_UPLOAD_PROGRESS
      in (case error of Some e \<Rightarrow> (s3, Rejected e) | None \<Rightarrow> (s3, Resolved ())))"

definition checkSFTP :: "state \<Rightarrow> state \<times> unit promise" where
  "checkSFTP s = (if sftp (activeStream s) then (s, Resolved ()) else connectSFTP s)"

text \<open>
  \<open>sftpLs\<close>. \<open>JSON.parse\<close> belongs to the language; it is the argument \<open>parse\<close>,
  with \<open>None\<close> where it throws. \<open>Array.map\<close> stops at the first element whose
  function throws.
\<close>

definition strip_control :: "js_string \<Rightarrow> js_string" where
  "strip_control p = filter (\<lambda>c. \<not> c \<le> 0x1F) p"

fun map_parse :: "(js_string \<Rightarrow> 'a option) \<Rightarrow> js_string list \<Rightarrow> 'a list option" where
  "map_parse parse [] = Some []"
| "map_parse parse (p # ps) =
     (case parse (strip_control p) of
        None \<Rightarrow> None
      | Some v \<Rightarrow> (case map_parse parse ps of None \<Rightarrow> None | Some vs \<Rightarrow> Some (v # vs)))"

definition sftpLs_then :: "state \<Rightarrow> string \<Rightarrow> state" where
  "sftpLs_then s path = call_native (SftpLs path (key s)) s"

definition sftpLs_cb ::
  "(js_string \<Rightarrow> 'a option) \<Rightarrow> state \<Rightarrow> cb_error option \<Rightarrow> js_string list option
     \<Rightarrow> state \<times> 'a list option promise" where
  "sftpLs_cb parse s error response0 =
     (case (case response0 of None \<Rightarrow> Some None
                            | Some raw \<Rightarrow> map_option Some (map_parse parse raw)) of
        None \<Rightarrow> (s, Thrown SyntaxError)
      | Some response \<Rightarrow>
          (case error of Some e \<Rightarrow> (s, Rejected e) | None \<Rightarrow> (s, Resolved response)))"

subsection \<open>Transfers\<close>

definition sftpUpload_then :: "state \<Rightarrow> string \<Rightarrow> string \<Rightarrow> state" where
  "sftpUpload_then s localFilePath remoteFilePath =
     (let s1 = s\<lparr>counters := (counters s)\<lparr>upload := upload (counters s) + 1\<rparr>\<rparr>
      in call_native (SftpUpload localFilePath remoteFilePath (key s1)) s1)"

definition sftpUpload_cb :: "state \<Rightarrow> cb_error option \<Rightarrow> state \<times> unit promise" where
  "sftpUpload_cb s error =
     (let s1 = s\<lparr>counters := (counters s)\<lparr>upload := upload (counters s) - 1\<rparr>\<rparr>
      in (case error of Some e \<Rightarrow> (s1, Rejected e) | None \<Rightarrow> (s1, Resolved ())))"

definition sftpCancelUpload :: "state \<Rightarrow> state" where
  "sftpCancelUpload s =
     (if upload (counters s) > 0 then call_native (SftpCancelUpload (key s)) s else s)"

definition sftpDownload_then :: "state \<Rightarrow> string \<Rightarrow> string \<Rightarrow> state" where
  "sftpDownload_then s remoteFilePath localFilePath =
     (let s1 = s\<lparr>counters := (counters s)\<lparr>download := download (counters s) + 1\<rparr>\<rparr>
      in call_native (SftpDownload remoteFilePath localFilePath (key s1)) s1)"

definition sftpDownload_cb ::
  "state \<Rightarrow> cb_error option \<Rightarrow> string \<Rightarrow> state \<times> string promise" where
  "sftpDownload_cb s error response =
     (let s1 = s\<lparr>counters := (counters s)\<lparr>download := download (counters s) - 1\<rparr>\<rparr>
      in (case error of Some e \<Rightarrow> (s1, Rejected e) | None \<Rightarrow> (s1, Resolved response)))"

definition sftpCancelDownload :: "state \<Rightarrow> state" where
  "sftpCancelDownload s =
     (if download (counters s) > 0 then call_native (SftpCancelDownload (key s)) s else s)"

text \<open>
  The two other upload methods differ from \<open>sftpUpload\<close> only in the native entry
  point they call; their completion callbacks have the body of \<open>sftpUpload_cb\<close>.
\<close>

definition sftpUploadWithCustomName_then :: "state \<Rightarrow> string \<Rightarrow> string \<Rightarrow> string \<Rightarrow> state" where
  "sftpUploadWithCustomName_then s localFilePath remoteFilePath fileName =
     (let s1 = s\<lparr>counters := (counters s)\<lparr>upload := upload (counters s) + 1\<rparr>\<rparr>
      in call_native (SftpUploadWithCustomName localFilePath remoteFilePath fileName (key s1)) s1)"

definition sftpUploadBase64_then :: "state \<Rightarrow> string \<Rightarrow> string \<Rightarrow> string \<Rightarrow> state" where
  "sftpUploadBase64_then s base64 remoteFilePath fileName =
     (let s1 = s\<lparr>counters := (counters s)\<lparr>upload := upload (counters s) + 1\<rparr>\<rparr>
      in call_native (SftpUploadBase64 base64 remoteFilePath fileName (key s1)) s1)"

subsection \<open>Teardown\<close>

definition disconnectSFTP :: "platform \<Rightarrow> state \<Rightarrow> state" where
  "disconnectSFTP os s =
     (if os \<noteq> Ios then
        (let s1 = unregisterNativeListener s NATIVE_EVENT_DOWNLOAD_PROGRESS;
             s2 = unregisterNativeListener s1 NATIVE_EVENT_UPLOAD_PROGRESS;
             s3 = call_native (DisconnectSFTP (key s2)) s2
         in s3\<lparr>activeStream := (activeStream s3)\<lparr>sftp := False\<rparr>\<rparr>)
      else s)"

definition disconnect :: "platform \<Rightarrow> state \<Rightarrow> state" where
  "disconnect os s =
     (let s1 = (if shell (activeStream s) then closeShell s else s);
          s2 = (if sftp (activeStream s1) then disconnectSFTP os s1 else s1)
      in call_native (Disconnect (key s2)) s2)"

section \<open>Interleavings of transfers\<close>

text \<open>
  What can happen to the counters, one step at a time: a transfer is issued (the body of
  the continuation runs) or the completion callback of a transfer fires, with or
  without an error.
\<close>

datatype transfer_event =
    BeginUpload string string
  | BeginUploadWithCustomName string string string
  | BeginUploadBase64 string string string
  | EndUpload "cb_error option"
  | BeginDownload string string
  | EndDownload "cb_error option" string

fun transfer_step :: "state \<Rightarrow> transfer_event \<Rightarrow> state" where
  "transfer_step s (BeginUpload l r) = sftpUpload_then s l r"
| "transfer_step s (BeginUploadWithCustomName l r f) = sftpUploadWithCustomName_then s l r f"
| "transfer_step s (BeginUploadBase64 b r f) = sftpUploadBase64_then s b r f"
| "transfer_step s (EndUpload e) = fst (sftpUpload_cb s e)"
| "transfer_step s (BeginDownload r l) = sftpDownload_then s r l"
| "transfer_step s (EndDownload e resp) = fst (sftpDownload_cb s e resp)"

definition run_transfers :: "state \<Rightarrow> transfer_event list \<Rightarrow> state" where
  "run_transfers s es = foldl transfer_step s es"

text \<open>
  The transfers in flight after a sequence of events, uploads first, starting from the
  given numbers; \<open>None\<close> when a completion fires for a transfer that was never issued.
\<close>

fun in_flight :: "nat \<Rightarrow> nat \<Rightarrow> transfer_event list \<Rightarrow> (nat \<times> nat) option" where
  "in_flight u d [] = Some (u, d)"
| "in_flight u d (BeginUpload _ _ # es) = in_flight (Suc u) d es"
| "in_flight u d (BeginUploadWithCustomName _ _ _ # es) = in_flight (Suc u) d es"
| "in_flight u d (BeginUploadBase64 _ _ _ # es) = in_flight (Suc u) d es"
| "in_flight u d (EndUpload _ # es) = (if u = 0 then None else in_flight (u - 1) d es)"
| "in_flight u d (BeginDownload _ _ # es) = in_flight u (Suc d) es"
| "in_flight u d (EndDownload _ _ # es) = (if d = 0 then None else in_flight u (d - 1) es)"

section \<open>Concrete clients\<close>

definition android_client :: state where
  "android_client = new_SSHClient Android ''5f3a'' ''example.org'' 22 ''alice'' (Password ''secret'')"

definition ios_client :: state where
  "ios_client = new_SSHClient Ios ''9c01'' ''example.org'' 22 ''alice'' (Password ''secret'')"




section \<open>Basic facts about the boundary\<close>

lemmas unfold_model =
  android_client_def ios_client_def new_SSHClient_def connect_def call_native_def
  startShell_def startShell_cb_def registerNativeListener_def addListener_def
  unregisterNativeListener_def remove_sub_def active_subs_def closeShell_def
  connectSFTP_def connectSFTP_cb_def checkSFTP_def disconnectSFTP_def disconnect_def
  NATIVE_EVENT_SHELL_def NATIVE_EVENT_DOWNLOAD_PROGRESS_def NATIVE_EVENT_UPLOAD_PROGRESS_def
  Let_def

lemma registerNativeListener_fields:
  "key (registerNativeListener os s n) = key s"
  "native_calls (registerNativeListener os s n) = native_calls s"
  "activeStream (registerNativeListener os s n) = activeStream s"
  "counters (registerNativeListener os s n) = counters s"
  "handlers (registerNativeListener os s n) = handlers s"
  by (simp_all add: registerNativeListener_def addListener_def Let_def)

lemma unregisterNativeListener_fields:
  "key (unregisterNativeListener s n) = key s"
  "native_calls (unregisterNativeListener s n) = native_calls s"
  "activeStream (unregisterNativeListener s n) = activeStream s"
  "counters (unregisterNativeListener s n) = counters s"
  "handlers (unregisterNativeListener s n) = handlers s"
  by (simp_all add: unregisterNativeListener_def remove_sub_def Let_def split: option.splits)

lemma unregisterNativeListener_subs:
  "set (emitter_subs (unregisterNativeListener s n)) \<subseteq> set (emitter_subs s)"
  by (auto simp: unregisterNativeListener_def remove_sub_def Let_def split: option.splits)

lemma unregisterNativeListener_gone:
  "listeners s n = Some sb \<Longrightarrow> sb \<notin> set (emitter_subs (unregisterNativeListener s n))"
  by (simp add: unregisterNativeListener_def remove_sub_def Let_def)

lemma unregisterNativeListener_listeners:
  "listeners (unregisterNativeListener s n) = (listeners s)(n := None)"
  by (auto simp: unregisterNativeListener_def remove_sub_def Let_def split: option.splits)

lemma closeShell_fields:
  "key (closeShell s) = key s"
  "native_calls (closeShell s) = native_calls s @ [CloseShell (key s)]"
  "sftp (activeStream (closeShell s)) = sftp (activeStream s)"
  by (simp_all add: closeShell_def call_native_def unregisterNativeListener_fields Let_def)

lemma disconnectSFTP_fields:
  "key (disconnectSFTP os s) = key s"
  "native_calls (disconnectSFTP os s)
     = native_calls s @ (if os \<noteq> Ios then [DisconnectSFTP (key s)] else [])"
  by (simp_all add: disconnectSFTP_def call_native_def unregisterNativeListener_fields Let_def)

section \<open>Starting the shell\<close>

text \<open>
  C1. When the shell is active, \<open>startShell\<close> returns a promise resolved with the empty
  string and changes nothing, so nothing is sent to the native module. The call sequence
  of the native module grows by a shell-start request exactly when the shell is not
  active. In particular, after a start that succeeded, a second \<open>startShell\<close> is the
  empty-string no-op and the native module has seen one shell-start request, not two.
\<close>

theorem startShell_active_noop:
  "(shell (activeStream s) \<longrightarrow> startShell os s ptyType = (s, Resolved ''''))
   \<and> (native_calls (fst (startShell os s ptyType)) = native_calls s @ [StartShell (key s) ptyType]
        \<longleftrightarrow> \<not> shell (activeStream s))
   \<and> (StartShell k p \<in> set (native_calls (fst (startShell os s ptyType)))
        \<and> StartShell k p \<notin> set (native_calls s) \<longrightarrow> \<not> shell (activeStream s))
   \<and> (\<not> shell (activeStream s) \<longrightarrow>
        startShell os (fst (startShell_cb (fst (startShell os s ptyType)) None banner)) ptyType'
          = (fst (startShell_cb (fst (startShell os s ptyType)) None banner), Resolved '''')
        \<and> native_calls (fst (startShell_cb (fst (startShell os s ptyType)) None banner))
          = native_calls s @ [StartShell (key s) ptyType])"
  by (auto simp: startShell_def startShell_cb_def call_native_def registerNativeListener_fields
      Let_def)

text \<open>
  C1 at a client whose shell was opened with success, and at a new client, whose shell
  is closed.
\<close>

theorem startShell_active_noop_witness:
  "shell (activeStream (fst (startShell_cb (fst (startShell Android android_client XTERM)) None ''welcome'')))
   \<and> startShell Android (fst (startShell_cb (fst (startShell Android android_client XTERM)) None ''welcome'')) VT100
       = (fst (startShell_cb (fst (startShell Android android_client XTERM)) None ''welcome''), Resolved '''')
   \<and> native_calls (fst (startShell Android (fst (startShell_cb (fst (startShell Android android_client XTERM)) None ''welcome'')) VT100))
       = [ConnectToHostByPassword ''example.org'' 22 ''alice'' ''secret'' ''5f3a'', StartShell ''5f3a'' XTERM]
   \<and> \<not> shell (activeStream android_client)
   \<and> StartShell ''5f3a'' XTERM \<in> set (native_calls (fst (startShell Android android_client XTERM)))
   \<and> StartShell ''5f3a'' XTERM \<notin> set (native_calls android_client)"
  using startShell_active_noop [of "fst (startShell_cb (fst (startShell Android android_client XTERM)) None ''welcome'')"
      Android VT100 "''5f3a''" XTERM "''''" VT100]
    startShell_active_noop [of android_client Android XTERM "''5f3a''" XTERM "''welcome''" VT100]
  by (simp add: unfold_model)

section \<open>Connecting SFTP\<close>

text \<open>
  C2. The claim is that a failed SFTP connect leaves \<open>sftpActive\<close> false. The
  completion callback of \<open>connectSFTP\<close> sets the flag and registers the two progress
  listeners before it looks at the error: on a new client whose SFTP connect is answered
  with an error, the promise is rejected and the flag is true afterwards.
\<close>

theorem connectSFTP_error_marks_active:
  "sftp (activeStream android_client) = False
   \<and> snd (connectSFTP_cb Android (fst (connectSFTP android_client)) (Some (CBError ''no sftp subsystem'')))
     = Rejected (CBError ''no sftp subsystem'')
   \<and> sftp (activeStream (fst (connectSFTP_cb Android (fst (connectSFTP android_client))
        (Some (CBError ''no sftp subsystem''))))) = True"
  by (simp add: unfold_model)

section \<open>Native subscriptions\<close>

text \<open>
  C3, as stated, fails: \<open>registerNativeListener\<close> has no guard and no teardown. A shell
  start that fails leaves its subscription in place, and the next \<open>startShell\<close>
  registers again: two subscriptions for the shell event are live.
\<close>

theorem registerNativeListener_duplicate:
  "length (active_subs
      (fst (startShell Android
         (fst (startShell_cb (fst (startShell Android android_client VANILLA)) (Some (CBError ''refused'')) ''''))
         VANILLA))
      NATIVE_EVENT_SHELL) = 2"
  by (simp add: unfold_model)

text \<open>
  C3, amended. Registering always creates exactly one new subscription for the event
  name and removes none of the existing ones. The listener table keeps one subscription
  per event name, the newest, which is live; entries and subscriptions of other names
  are untouched. So exactly one subscription for the name is live after registering
  when none was live before.
\<close>

theorem registerNativeListener_adds_one:
  "length (active_subs (registerNativeListener os s n) n) = Suc (length (active_subs s n))
   \<and> (active_subs s n = [] \<longrightarrow> length (active_subs (registerNativeListener os s n) n) = 1)
   \<and> set (emitter_subs s) \<subseteq> set (emitter_subs (registerNativeListener os s n))
   \<and> listeners (registerNativeListener os s n) n
        = Some \<lparr>sub_id = next_sub s,
                 sub_emitter = (if os = Ios then RNSSHClientEmitter else DeviceEventEmitter),
                 sub_event = n\<rparr>
   \<and> (\<forall>sb. listeners (registerNativeListener os s n) n = Some sb
          \<longrightarrow> sb \<in> set (active_subs (registerNativeListener os s n) n))
   \<and> (\<forall>m. m \<noteq> n \<longrightarrow> listeners (registerNativeListener os s n) m = listeners s m
          \<and> active_subs (registerNativeListener os s n) m = active_subs s m)"
  by (auto simp: registerNativeListener_def addListener_def active_subs_def Let_def)

text \<open>C3, amended, at a new client, which has no subscription yet.\<close>

theorem registerNativeListener_adds_one_witness:
  "length (active_subs (registerNativeListener Android android_client ''Shell'') ''Shell'') = 1
   \<and> active_subs android_client ''Shell'' = []
   \<and> listeners (registerNativeListener Android android_client ''Shell'') ''Shell''
      = Some \<lparr>sub_id = 0, sub_emitter = DeviceEventEmitter, sub_event = ''Shell''\<rparr>
   \<and> listeners (registerNativeListener Android android_client ''Shell'') ''UploadProgress'' = None"
  using registerNativeListener_adds_one [of Android android_client "''Shell''"]
  by (simp add: unfold_model)

section \<open>Transfer counters\<close>

lemma transfer_step_counters:
  "in_flight u d [e] = Some (u', d') \<Longrightarrow> upload (counters s) = int u \<Longrightarrow> download (counters s) = int d
   \<Longrightarrow> upload (counters (transfer_step s e)) = int u' \<and> download (counters (transfer_step s e)) = int d'"
  by (cases e)
     (auto simp: sftpUpload_then_def sftpUploadWithCustomName_then_def sftpUploadBase64_then_def
        sftpUpload_cb_def sftpDownload_then_def sftpDownload_cb_def call_native_def Let_def
        split: if_splits option.splits)

lemma in_flight_Cons:
  "in_flight u d (e # es) = (case in_flight u d [e] of None \<Rightarrow> None | Some (u', d') \<Rightarrow> in_flight u' d' es)"
  by (cases e) auto

lemma run_transfers_counters:
  "in_flight u d es = Some (u', d') \<Longrightarrow> upload (counters s) = int u \<Longrightarrow> download (counters s) = int d
   \<Longrightarrow> upload (counters (run_transfers s es)) = int u' \<and> download (counters (run_transfers s es)) = int d'"
proof (induction es arbitrary: s u d)
  case Nil
  then show ?case by (simp add: run_transfers_def)
next
  case (Cons e es)
  from Cons.prems(1) obtain u1 d1 where
    one: "in_flight u d [e] = Some (u1, d1)" and rest: "in_flight u1 d1 es = Some (u', d')"
    by (auto simp: in_flight_Cons [of u d e es] split: option.splits)
  from transfer_step_counters [OF one Cons.prems(2) Cons.prems(3)]
  have "upload (counters (transfer_step s e)) = int u1" "download (counters (transfer_step s e)) = int d1"
    by simp_all
  from Cons.IH [OF rest this] show ?case by (simp add: run_transfers_def)
qed

lemma in_flight_take:
  "in_flight u d es = Some (u', d') \<Longrightarrow> \<exists>u1 d1. in_flight u d (take n es) = Some (u1, d1)"
proof (induction es arbitrary: u d n)
  case Nil
  then show ?case by simp
next
  case (Cons e es)
  show ?case
  proof (cases n)
    case 0
    then show ?thesis by simp
  next
    case (Suc m)
    from Cons.prems obtain u1 d1 where
      one: "in_flight u d [e] = Some (u1, d1)" and rest: "in_flight u1 d1 es = Some (u', d')"
      by (auto simp: in_flight_Cons [of u d e es] split: option.splits)
    from Cons.IH [OF rest, of m] obtain u2 d2 where "in_flight u1 d1 (take m es) = Some (u2, d2)"
      by blast
    with one Suc show ?thesis
      by (simp add: in_flight_Cons [of u d e "take m es"])
  qed
qed

text \<open>
  C4, as stated, fails: the completion callbacks decrement without a clamp. A completion
  that fires on a client with nothing in flight leaves the counter at \<open>-1\<close>.
\<close>

theorem transfer_counters_unclamped:
  "upload (counters (fst (sftpUpload_cb android_client None))) = - 1
   \<and> download (counters (fst (sftpDownload_cb android_client (Some (CBError ''cancelled'')) ''''))) = - 1"
  by (simp add: unfold_model sftpUpload_cb_def sftpDownload_cb_def)

text \<open>
  C4, amended. Take any interleaving of transfer issues and completions, with success or
  with an error, in which every completion belongs to a transfer issued before it, on a
  client whose counters are zero. After every prefix both counters are at least zero,
  at the end they are the numbers of uploads and downloads still in flight, and so both
  are zero once every issued transfer has completed. Nothing is clamped.
\<close>

theorem transfer_counters_balanced:
  assumes "in_flight 0 0 es = Some (u, d)"
    and "upload (counters s) = 0" and "download (counters s) = 0"
  shows "(\<forall>n. 0 \<le> upload (counters (run_transfers s (take n es)))
              \<and> 0 \<le> download (counters (run_transfers s (take n es))))
         \<and> upload (counters (run_transfers s es)) = int u
         \<and> download (counters (run_transfers s es)) = int d
         \<and> (u = 0 \<and> d = 0 \<longrightarrow> upload (counters (run_transfers s es)) = 0
                                 \<and> download (counters (run_transfers s es)) = 0)"
proof -
  have start: "upload (counters s) = int 0" "download (counters s) = int 0"
    using assms(2,3) by simp_all
  have final: "upload (counters (run_transfers s es)) = int u \<and> download (counters (run_transfers s es)) = int d"
    by (rule run_transfers_counters [OF assms(1) start])
  have prefix: "0 \<le> upload (counters (run_transfers s (take n es)))
              \<and> 0 \<le> download (counters (run_transfers s (take n es)))" for n
  proof -
    from in_flight_take [OF assms(1), of n] obtain u1 d1
      where "in_flight 0 0 (take n es) = Some (u1, d1)" by blast
    from run_transfers_counters [OF this start] show ?thesis by simp
  qed
  from final prefix show ?thesis by simp
qed

text \<open>
  C4, amended, at two uploads and a download that overlap, one upload failing.
\<close>

theorem transfer_counters_balanced_witness:
  "in_flight 0 0 [BeginUpload ''a'' ''b'', BeginDownload ''c'' ''d'', EndUpload (Some (CBError ''io'')),
       BeginUploadBase64 ''QQ=='' ''/tmp'' ''f'', EndDownload None ''ok'', EndUpload None] = Some (0, 0)
   \<and> upload (counters android_client) = 0 \<and> download (counters android_client) = 0
   \<and> upload (counters (run_transfers android_client
        [BeginUpload ''a'' ''b'', BeginDownload ''c'' ''d'', EndUpload (Some (CBError ''io'')),
         BeginUploadBase64 ''QQ=='' ''/tmp'' ''f'', EndDownload None ''ok'', EndUpload None])) = 0
   \<and> download (counters (run_transfers android_client
        [BeginUpload ''a'' ''b'', BeginDownload ''c'' ''d'', EndUpload (Some (CBError ''io'')),
         BeginUploadBase64 ''QQ=='' ''/tmp'' ''f'', EndDownload None ''ok'', EndUpload None])) = 0"
proof -
  have a: "in_flight 0 0 [BeginUpload ''a'' ''b'', BeginDownload ''c'' ''d'', EndUpload (Some (CBError ''io'')),
       BeginUploadBase64 ''QQ=='' ''/tmp'' ''f'', EndDownload None ''ok'', EndUpload None] = Some (0, 0)"
    by simp
  have b: "upload (counters android_client) = 0" and c: "download (counters android_client) = 0"
    by (simp_all add: unfold_model)
  from transfer_counters_balanced [OF a b c] a b c show ?thesis by simp
qed

section \<open>Cancelling transfers\<close>

text \<open>
  C5. \<open>sftpCancelUpload\<close> sends a cancel request to the native module exactly when the
  upload counter is greater than zero, and then changes nothing else; otherwise it
  leaves the client and the boundary as they are. \<open>sftpCancelDownload\<close> does the same
  with the download counter. Neither has a failing branch.
\<close>

theorem sftpCancel_forwards_iff:
  "(native_calls (sftpCancelUpload s) = native_calls s @ [SftpCancelUpload (key s)]
      \<longleftrightarrow> 0 < upload (counters s))
   \<and> (0 < upload (counters s) \<longrightarrow>
         sftpCancelUpload s = s\<lparr>native_calls := native_calls s @ [SftpCancelUpload (key s)]\<rparr>)
   \<and> (\<not> 0 < upload (counters s) \<longrightarrow> sftpCancelUpload s = s)
   \<and> (native_calls (sftpCancelDownload s) = native_calls s @ [SftpCancelDownload (key s)]
      \<longleftrightarrow> 0 < download (counters s))
   \<and> (0 < download (counters s) \<longrightarrow>
         sftpCancelDownload s = s\<lparr>native_calls := native_calls s @ [SftpCancelDownload (key s)]\<rparr>)
   \<and> (\<not> 0 < download (counters s) \<longrightarrow> sftpCancelDownload s = s)"
  by (simp add: sftpCancelUpload_def sftpCancelDownload_def call_native_def)

text \<open>
  C5 at a new client, with nothing in flight, and at clients with one upload and with
  one download in flight.
\<close>

theorem sftpCancel_forwards_iff_witness:
  "sftpCancelUpload android_client = android_client
   \<and> sftpCancelDownload android_client = android_client
   \<and> 0 < upload (counters (sftpUpload_then android_client ''a.txt'' ''/tmp''))
   \<and> native_calls (sftpCancelUpload (sftpUpload_then android_client ''a.txt'' ''/tmp''))
      = [ConnectToHostByPassword ''example.org'' 22 ''alice'' ''secret'' ''5f3a'',
         SftpUpload ''a.txt'' ''/tmp'' ''5f3a'', SftpCancelUpload ''5f3a'']
   \<and> 0 < download (counters (sftpDownload_then android_client ''/tmp/a'' ''a.txt''))
   \<and> native_calls (sftpCancelDownload (sftpDownload_then android_client ''/tmp/a'' ''a.txt''))
      = [ConnectToHostByPassword ''example.org'' 22 ''alice'' ''secret'' ''5f3a'',
         SftpDownload ''/tmp/a'' ''a.txt'' ''5f3a'', SftpCancelDownload ''5f3a'']"
  using sftpCancel_forwards_iff [of android_client]
    sftpCancel_forwards_iff [of "sftpUpload_then android_client ''a.txt'' ''/tmp''"]
    sftpCancel_forwards_iff [of "sftpDownload_then android_client ''/tmp/a'' ''a.txt''"]
  by (simp add: unfold_model sftpUpload_then_def sftpDownload_then_def)

section \<open>Teardown order\<close>

text \<open>
  C6, as stated, fails on iOS: there \<open>disconnectSFTP\<close> does nothing, so
  \<open>disconnect\<close> on a client with SFTP active sends no SFTP disconnect before the
  transport disconnect.
\<close>

theorem disconnect_skips_sftp_on_ios:
  "sftp (activeStream (fst (connectSFTP_cb Ios (fst (connectSFTP ios_client)) None))) = True
   \<and> native_calls (disconnect Ios (fst (connectSFTP_cb Ios (fst (connectSFTP ios_client)) None)))
      = [ConnectToHost ''example.org'' 22 ''alice'' (Password ''secret'') ''9c01'',
         ConnectSFTP ''9c01'', Disconnect ''9c01'']"
  by (simp add: unfold_model)

text \<open>
  C6, amended. The requests \<open>disconnect\<close> sends to the native module are, in this
  order: the shell close when the shell is active; the SFTP disconnect when SFTP is
  active and the platform is not iOS; the transport disconnect, always and last.
\<close>

theorem disconnect_call_order:
  "native_calls (disconnect os s)
     = native_calls s
       @ (if shell (activeStream s) then [CloseShell (key s)] else [])
       @ (if sftp (activeStream s) \<and> os \<noteq> Ios then [DisconnectSFTP (key s)] else [])
       @ [Disconnect (key s)]
   \<and> last (native_calls (disconnect os s)) = Disconnect (key s)"
  by (simp add: disconnect_def call_native_def closeShell_fields disconnectSFTP_fields Let_def)

text \<open>C6, amended, at an Android client with the shell and SFTP both active.\<close>

theorem disconnect_call_order_witness:
  "native_calls (disconnect Android
      (fst (connectSFTP_cb Android
         (fst (connectSFTP (fst (startShell_cb (fst (startShell Android android_client XTERM)) None ''hi''))))
         None)))
   = [ConnectToHostByPassword ''example.org'' 22 ''alice'' ''secret'' ''5f3a'',
      StartShell ''5f3a'' XTERM, ConnectSFTP ''5f3a'',
      CloseShell ''5f3a'', DisconnectSFTP ''5f3a'', Disconnect ''5f3a'']"
  using disconnect_call_order [of Android
      "fst (connectSFTP_cb Android
         (fst (connectSFTP (fst (startShell_cb (fst (startShell Android android_client XTERM)) None ''hi''))))
         None)"]
  by (simp add: unfold_model)

section \<open>Disconnecting SFTP\<close>

text \<open>
  C7, as stated, fails on iOS: \<open>disconnectSFTP\<close> is guarded by the platform and does
  nothing there. After it the flag is still true, no request was sent, and both
  progress subscriptions are still live.
\<close>

theorem disconnectSFTP_noop_on_ios:
  "sftp (activeStream (disconnectSFTP Ios (fst (connectSFTP_cb Ios (fst (connectSFTP ios_client)) None)))) = True
   \<and> native_calls (disconnectSFTP Ios (fst (connectSFTP_cb Ios (fst (connectSFTP ios_client)) None)))
      = [ConnectToHost ''example.org'' 22 ''alice'' (Password ''secret'') ''9c01'', ConnectSFTP ''9c01'']
   \<and> length (active_subs (disconnectSFTP Ios (fst (connectSFTP_cb Ios (fst (connectSFTP ios_client)) None)))
        NATIVE_EVENT_UPLOAD_PROGRESS) = 1
   \<and> length (active_subs (disconnectSFTP Ios (fst (connectSFTP_cb Ios (fst (connectSFTP ios_client)) None)))
        NATIVE_EVENT_DOWNLOAD_PROGRESS) = 1"
  by (simp add: unfold_model)

text \<open>
  C7, amended. On every platform but iOS, \<open>disconnectSFTP\<close> deletes the two progress
  entries of the listener table and ends the subscriptions they held (it adds none),
  sends the SFTP disconnect to the native module, and sets \<open>sftpActive\<close> to false; the
  shell flag is untouched. On iOS it changes nothing.
\<close>

theorem disconnectSFTP_effect:
  "(os \<noteq> Ios \<longrightarrow>
      listeners (disconnectSFTP os s) NATIVE_EVENT_DOWNLOAD_PROGRESS = None
      \<and> listeners (disconnectSFTP os s) NATIVE_EVENT_UPLOAD_PROGRESS = None
      \<and> (\<forall>sb. listeners s NATIVE_EVENT_DOWNLOAD_PROGRESS = Some sb
               \<or> listeners s NATIVE_EVENT_UPLOAD_PROGRESS = Some sb
             \<longrightarrow> sb \<notin> set (emitter_subs (disconnectSFTP os s)))
      \<and> set (emitter_subs (disconnectSFTP os s)) \<subseteq> set (emitter_subs s)
      \<and> native_calls (disconnectSFTP os s) = native_calls s @ [DisconnectSFTP (key s)]
      \<and> sftp (activeStream (disconnectSFTP os s)) = False
      \<and> shell (activeStream (disconnectSFTP os s)) = shell (activeStream s))
   \<and> disconnectSFTP Ios s = s"
proof -
  let ?s1 = "unregisterNativeListener s NATIVE_EVENT_DOWNLOAD_PROGRESS"
  let ?s2 = "unregisterNativeListener ?s1 NATIVE_EVENT_UPLOAD_PROGRESS"
  have subs: "emitter_subs (disconnectSFTP os s) = emitter_subs ?s2" if "os \<noteq> Ios"
    using that by (simp add: disconnectSFTP_def call_native_def Let_def)
  have lst: "listeners (disconnectSFTP os s) = listeners ?s2" if "os \<noteq> Ios"
    using that by (simp add: disconnectSFTP_def call_native_def Let_def)
  have sub2: "set (emitter_subs ?s2) \<subseteq> set (emitter_subs ?s1)"
    and sub1: "set (emitter_subs ?s1) \<subseteq> set (emitter_subs s)"
    by (rule unregisterNativeListener_subs)+
  have down: "sb \<notin> set (emitter_subs ?s2)" if "listeners s NATIVE_EVENT_DOWNLOAD_PROGRESS = Some sb" for sb
    using unregisterNativeListener_gone [OF that] sub2 by blast
  have up: "sb \<notin> set (emitter_subs ?s2)" if "listeners s NATIVE_EVENT_UPLOAD_PROGRESS = Some sb" for sb
  proof -
    have "listeners ?s1 NATIVE_EVENT_UPLOAD_PROGRESS = Some sb"
      using that
      by (simp add: unregisterNativeListener_listeners NATIVE_EVENT_DOWNLOAD_PROGRESS_def
          NATIVE_EVENT_UPLOAD_PROGRESS_def)
    then show ?thesis by (rule unregisterNativeListener_gone)
  qed
  have a: "listeners ?s2 NATIVE_EVENT_DOWNLOAD_PROGRESS = None"
    and b: "listeners ?s2 NATIVE_EVENT_UPLOAD_PROGRESS = None"
    by (simp_all add: unregisterNativeListener_listeners)
  have calls: "native_calls (disconnectSFTP os s) = native_calls s @ [DisconnectSFTP (key s)]"
    and flags: "sftp (activeStream (disconnectSFTP os s)) = False"
      "shell (activeStream (disconnectSFTP os s)) = shell (activeStream s)" if "os \<noteq> Ios"
    using that
    by (simp_all add: disconnectSFTP_def call_native_def unregisterNativeListener_fields Let_def)
  have ios: "disconnectSFTP Ios s = s"
    by (simp add: disconnectSFTP_def)
  show ?thesis
    using subs lst sub1 sub2 down up a b calls flags ios by auto
qed

text \<open>C7, amended, at an Android client whose SFTP connect succeeded.\<close>

theorem disconnectSFTP_effect_witness:
  "sftp (activeStream (disconnectSFTP Android (fst (connectSFTP_cb Android (fst (connectSFTP android_client)) None)))) = False
   \<and> native_calls (disconnectSFTP Android (fst (connectSFTP_cb Android (fst (connectSFTP android_client)) None)))
      = [ConnectToHostByPassword ''example.org'' 22 ''alice'' ''secret'' ''5f3a'',
         ConnectSFTP ''5f3a'', DisconnectSFTP ''5f3a'']
   \<and> emitter_subs (disconnectSFTP Android (fst (connectSFTP_cb Android (fst (connectSFTP android_client)) None))) = []
   \<and> listeners (fst (connectSFTP_cb Android (fst (connectSFTP android_client)) None)) NATIVE_EVENT_UPLOAD_PROGRESS
      = Some \<lparr>sub_id = 1, sub_emitter = DeviceEventEmitter, sub_event = ''UploadProgress''\<rparr>"
  using disconnectSFTP_effect [of Android "fst (connectSFTP_cb Android (fst (connectSFTP android_client)) None)"]
  by (simp add: unfold_model)

section \<open>Listing a directory\<close>

lemma strip_control_set: "set (strip_control p) = {c \<in> set p. 0x1F < c}"
  by (auto simp: strip_control_def)

lemma map_parse_None:
  "map_parse parse raw = None \<longleftrightarrow> (\<exists>p \<in> set raw. parse (strip_control p) = None)"
  by (induction raw) (auto split: option.splits)

lemma map_parse_Some:
  "map_parse parse raw = Some vs \<Longrightarrow> map (\<lambda>p. parse (strip_control p)) raw = map Some vs"
  by (induction raw arbitrary: vs) (auto split: option.splits)

text \<open>
  What the completion callback of \<open>sftpLs\<close> does with a listing. Stripping removes
  exactly the code units \<open>0x00\<close> to \<open>0x1F\<close> and keeps every other code unit, in
  order and as often as it occurs. The decoder is applied to the stripped entries. When
  it throws on an entry, the exception leaves the callback. When the promise is
  resolved with a list, the list has one decoded value for every raw entry, in order.
  When every entry decodes, the promise is rejected with the native error if there is
  one and resolved with the whole list otherwise.
\<close>

lemma sftpLs_cb_decoding:
  "strip_control [] = []
   \<and> strip_control (c # p) = (if c \<le> 0x1F then strip_control p else c # strip_control p)
   \<and> strip_control (p @ q) = strip_control p @ strip_control q
   \<and> ((\<exists>p \<in> set raw. parse (strip_control p) = None)
        \<longrightarrow> sftpLs_cb parse s error (Some raw) = (s, Thrown SyntaxError))
   \<and> (\<forall>s' r. sftpLs_cb parse s error (Some raw) = (s', Resolved r)
        \<longrightarrow> s' = s \<and> error = None
            \<and> (\<exists>vs. r = Some vs \<and> length vs = length raw
                  \<and> map (\<lambda>p. parse (strip_control p)) raw = map Some vs))
   \<and> ((\<forall>p \<in> set raw. parse (strip_control p) \<noteq> None)
        \<longrightarrow> (\<exists>vs. map (\<lambda>p. parse (strip_control p)) raw = map Some vs
              \<and> sftpLs_cb parse s error (Some raw)
                  = (s, case error of Some e \<Rightarrow> Rejected e | None \<Rightarrow> Resolved (Some vs))))"
proof -
  have strip: "strip_control [] = []"
    "strip_control (c # p) = (if c \<le> 0x1F then strip_control p else c # strip_control p)"
    "strip_control (p @ q) = strip_control p @ strip_control q"
    by (simp_all add: strip_control_def)
  have fail: "sftpLs_cb parse s error (Some raw) = (s, Thrown SyntaxError)"
    if "\<exists>p \<in> set raw. parse (strip_control p) = None"
  proof -
    from that have "map_parse parse raw = None" by (simp add: map_parse_None)
    then show ?thesis by (simp add: sftpLs_cb_def)
  qed
  have ok: "\<exists>vs. map (\<lambda>p. parse (strip_control p)) raw = map Some vs
              \<and> sftpLs_cb parse s error (Some raw)
                  = (s, case error of Some e \<Rightarrow> Rejected e | None \<Rightarrow> Resolved (Some vs))"
    if "\<forall>p \<in> set raw. parse (strip_control p) \<noteq> None"
  proof -
    from that have "map_parse parse raw \<noteq> None" by (simp add: map_parse_None)
    then obtain vs where vs: "map_parse parse raw = Some vs" by blast
    then have "map (\<lambda>p. parse (strip_control p)) raw = map Some vs"
      by (simp add: map_parse_Some)
    moreover from vs have "sftpLs_cb parse s error (Some raw)
        = (s, case error of Some e \<Rightarrow> Rejected e | None \<Rightarrow> Resolved (Some vs))"
      by (simp add: sftpLs_cb_def split: option.splits)
    ultimately show ?thesis by blast
  qed
  have res: "s' = s \<and> error = None
            \<and> (\<exists>vs. r = Some vs \<and> length vs = length raw
                  \<and> map (\<lambda>p. parse (strip_control p)) raw = map Some vs)"
    if "sftpLs_cb parse s error (Some raw) = (s', Resolved r)" for s' r
  proof -
    from that obtain vs where vs: "map_parse parse raw = Some vs" and r: "r = Some vs"
      and s: "s' = s" and e: "error = None"
      by (auto simp: sftpLs_cb_def split: option.splits)
    from vs have m: "map (\<lambda>p. parse (strip_control p)) raw = map Some vs"
      by (simp add: map_parse_Some)
    then have "length raw = length vs" by (metis length_map)
    with m r s e show ?thesis by simp
  qed
  from strip fail ok res show ?thesis by blast
qed


section \<open>Dispatching native events\<close>




section \<open>A shell start that fails\<close>

text \<open>
  C10. On a client whose shell is not active, \<open>startShell\<close> registers the shell
  listener, sends the shell-start request and returns a pending promise. When the
  native module answers with an error, the promise is rejected with that error, the
  shell flag stays false, and the listener registered before the request is still in
  the listener table and still live on the emitter.
\<close>

theorem startShell_failure_keeps_listener:
  assumes "\<not> shell (activeStream s)"
  shows "snd (startShell os s ptyType) = Pending
   \<and> native_calls (fst (startShell os s ptyType)) = native_calls s @ [StartShell (key s) ptyType]
   \<and> snd (startShell_cb (fst (startShell os s ptyType)) (Some e) response) = Rejected e
   \<and> \<not> shell (activeStream (fst (startShell_cb (fst (startShell os s ptyType)) (Some e) response)))
   \<and> (\<exists>sb. listeners (fst (startShell_cb (fst (startShell os s ptyType)) (Some e) response)) NATIVE_EVENT_SHELL
             = Some sb
          \<and> sb \<in> set (emitter_subs (fst (startShell_cb (fst (startShell os s ptyType)) (Some e) response)))
          \<and> sub_id sb = next_sub s \<and> sub_event sb = NATIVE_EVENT_SHELL)"
  using assms
  by (simp add: startShell_def startShell_cb_def call_native_def registerNativeListener_def
      addListener_def Let_def)

text \<open>C10 at a new client whose shell start is refused.\<close>

theorem startShell_failure_keeps_listener_witness:
  "\<not> shell (activeStream android_client)
   \<and> snd (startShell_cb (fst (startShell Android android_client VANILLA)) (Some (CBError ''refused'')) '''')
       = Rejected (CBError ''refused'')
   \<and> listeners (fst (startShell_cb (fst (startShell Android android_client VANILLA)) (Some (CBError ''refused'')) ''''))
        ''Shell'' = Some \<lparr>sub_id = 0, sub_emitter = DeviceEventEmitter, sub_event = ''Shell''\<rparr>
   \<and> emitter_subs (fst (startShell_cb (fst (startShell Android android_client VANILLA)) (Some (CBError ''refused'')) ''''))
       = [\<lparr>sub_id = 0, sub_emitter = DeviceEventEmitter, sub_event = ''Shell''\<rparr>]"
proof -
  have closed: "\<not> shell (activeStream android_client)"
    by (simp add: unfold_model)
  from startShell_failure_keeps_listener [OF closed, of Android VANILLA "CBError ''refused''" "''''"] closed
  show ?thesis by (simp add: unfold_model)
qed

end
